theory Spec2Isabelle
  imports Complex_Main
begin

section \<open>Data model of the editor (src/src/App.tsx)\<close>

text \<open>
  The source file holds two variants of the component \<open>App\<close>: the multi-overlay
  variant (lines 1 to 588) and the single-overlay variant (lines 589 to 1084).
  JavaScript numbers are modelled as \<^typ>\<open>real\<close>: the arithmetic of the source is
  read as exact arithmetic, which agrees with the source whenever no divisor is zero
  (there HOL yields 0 where JavaScript yields an infinity or NaN) and up to the rounding
  of IEEE doubles.
\<close>

type_synonym bytes = "nat list"

text \<open>What a \<open>throw\<close> or a rejected promise carries: an \<open>Error\<close> object with its
  \<open>message\<close>, or another value (a string, say), for which \<open>instanceof Error\<close> is false.\<close>
datatype js_error = Error string | NonError string

record upload_file =
  file_name :: string
  file_type :: string
  file_bytes :: bytes

record rect =
  rect_x :: real
  rect_y :: real
  rect_width :: real
  rect_height :: real

record dims =
  dim_width :: real
  dim_height :: real

text \<open>\<open>type OverlayImage\<close>, lines 12 to 17.\<close>
record overlayImage =
  img_id :: string
  img_file :: upload_file
  previewUrl :: string
  pos :: rect

datatype export_format = Pdf | Jpg | Png

text \<open>A document of pdf.js: the size of each page at scale 1.\<close>
type_synonym pdfDocumentProxy = "dims list"

text \<open>A document of pdf-lib: each page has a height and the images drawn on it.\<close>
datatype pdfImage = PngImage bytes | JpgImage bytes

record pdfPage =
  page_height :: real
  page_drawn :: "(pdfImage \<times> rect) list"

type_synonym pdfDocument = "pdfPage list"

text \<open>The export canvas: its size and the paint operations applied, in order.\<close>
datatype canvas_op = RenderPage nat real | DrawImage string rect

record canvas =
  canvas_width :: real
  canvas_height :: real
  canvas_ops :: "canvas_op list"

text \<open>What the user sees of a handler: alerts, console errors, downloads.\<close>
datatype payload = Blob bytes string | DataUrl string

datatype effect = Alert string | ConsoleError string js_error | Download string payload

text \<open>
  The collaborators (browser, pdf-lib, pdf.js), whose code is outside the repository,
  are parameters of the model. Each asynchronous call either resolves (\<open>Inr\<close>) or
  rejects with an error (\<open>Inl\<close>); \<open>image_onload url\<close> tells whether the browser
  ever fires \<open>onload\<close> for an image element whose source is \<open>url\<close>.
\<close>
record env =
  arrayBuffer :: "upload_file \<Rightarrow> js_error + bytes"
  getDocument :: "bytes \<Rightarrow> js_error + pdfDocumentProxy"
  pdf_load :: "bytes \<Rightarrow> js_error + pdfDocument"
  embedPng :: "bytes \<Rightarrow> js_error + pdfImage"
  embedJpg :: "bytes \<Rightarrow> js_error + pdfImage"
  pdf_save :: "pdfDocument \<Rightarrow> js_error + bytes"
  getContext :: bool
  page_render :: "nat \<Rightarrow> real \<Rightarrow> js_error option"
  image_onload :: "string \<Rightarrow> bool"
  toDataURL :: "canvas \<Rightarrow> string \<Rightarrow> real \<Rightarrow> string"

text \<open>The state hooks shared by both variants (lines 20 to 36 and 601 to 618).\<close>
record view_state =
  pdfFile :: "upload_file option"
  pdfDocProxy :: "pdfDocumentProxy option"
  currentPage :: nat
  numPages :: nat
  canvasRef :: bool
  pageDimensions :: dims
  renderScale :: real
  originalDimensions :: dims
  isExporting :: bool
  exportFormat :: export_format

record multi_state = view_state +
  overlayImages :: "overlayImage list"
  isDraggingOver :: bool

record single_state = view_state +
  imageFile :: "upload_file option"
  imagePreviewUrl :: "string option"
  imagePos :: rect

text \<open>
  How an asynchronous block ends: it completes, it throws, or it waits for ever on a
  promise that is never resolved.
\<close>
datatype 'a completion = Normal 'a | Throws js_error | Hangs

fun await :: "js_error + 'a \<Rightarrow> ('a \<Rightarrow> 'b completion) \<Rightarrow> 'b completion" where
  "await (Inl e) k = Throws e"
| "await (Inr v) k = k v"

fun then_do :: "'a completion \<Rightarrow> ('a \<Rightarrow> 'b completion) \<Rightarrow> 'b completion" where
  "then_do (Normal v) k = k v"
| "then_do (Throws e) k = Throws e"
| "then_do Hangs k = Hangs"

text \<open>What a call of an asynchronous handler leaves: the state and the effects once it
  has settled, or the state it stays in for ever.\<close>
datatype 'a outcome = Settled 'a "effect list" | Pending 'a

section \<open>Export\<close>

definition unsupported_format :: js_error where
  "unsupported_format = Error ''Unsupported image format. Please use PNG or JPEG.''"

text \<open>Reading a property of \<open>undefined\<close> or \<open>null\<close> throws a TypeError, which is an
  \<open>Error\<close>; the text of its message is the engine's.\<close>
definition type_error :: js_error where
  "type_error = Error ''TypeError''"

text \<open>The dispatch on the image type, lines 235 to 242 and 762 to 769.\<close>
definition embed_image :: "env \<Rightarrow> upload_file \<Rightarrow> bytes \<Rightarrow> js_error + pdfImage" where
  "embed_image e f imageBytes =
     (if file_type f = ''image/png'' then embedPng e imageBytes
      else if file_type f = ''image/jpeg'' \<or> file_type f = ''image/jpg'' then embedJpg e imageBytes
      else Inl unsupported_format)"

text \<open>The rectangle handed to \<open>page.drawImage\<close>, lines 249 to 263 and 780 to 794.\<close>
definition drawImage_options :: "rect \<Rightarrow> real \<Rightarrow> real \<Rightarrow> rect" where
  "drawImage_options p scale getHeight =
     (let originalWidth = rect_width p / scale;
          originalHeight = rect_height p / scale;
          originalX = rect_x p / scale;
          originalY = rect_y p / scale;
          pdfY = getHeight - originalY - originalHeight
      in \<lparr>rect_x = originalX, rect_y = pdfY, rect_width = originalWidth, rect_height = originalHeight\<rparr>)"

definition drawImage :: "pdfPage \<Rightarrow> pdfImage \<Rightarrow> rect \<Rightarrow> pdfPage" where
  "drawImage page pdfImage r = page\<lparr>page_drawn := page_drawn page @ [(pdfImage, r)]\<rparr>"

text \<open>\<open>pages[currentPage - 1]\<close>: \<open>undefined\<close> out of range.\<close>
definition target_page :: "pdfDocument \<Rightarrow> nat \<Rightarrow> pdfPage option" where
  "target_page pages n = (if 0 < n \<and> n \<le> length pages then Some (pages ! (n - 1)) else None)"

text \<open>The loop of lines 233 to 264 over \<open>overlayImages\<close>.\<close>
fun draw_all_images :: "env \<Rightarrow> real \<Rightarrow> overlayImage list \<Rightarrow> pdfPage option \<Rightarrow> (pdfPage option) completion" where
  "draw_all_images e scale [] page = Normal page"
| "draw_all_images e scale (img # rest) page =
     await (arrayBuffer e (img_file img)) (\<lambda>imageBytes.
     await (embed_image e (img_file img) imageBytes) (\<lambda>pdfImage.
       case page of
         None \<Rightarrow> Throws type_error
       | Some pg \<Rightarrow>
           draw_all_images e scale rest
             (Some (drawImage pg pdfImage (drawImage_options (pos img) scale (page_height pg))))))"

definition put_page :: "pdfDocument \<Rightarrow> nat \<Rightarrow> pdfPage option \<Rightarrow> pdfDocument" where
  "put_page pages n page = (case page of None \<Rightarrow> pages | Some pg \<Rightarrow> pages[n - 1 := pg])"

text \<open>The branch \<open>exportFormat === 'pdf'\<close> of the multi-overlay variant, lines 224 to 277.\<close>
definition export_pdf_multi :: "env \<Rightarrow> multi_state \<Rightarrow> upload_file \<Rightarrow> (effect list) completion" where
  "export_pdf_multi e s f =
     await (arrayBuffer e f) (\<lambda>pdfBytes.
     await (pdf_load e pdfBytes) (\<lambda>pdfDoc.
     then_do (draw_all_images e (renderScale s) (overlayImages s) (target_page pdfDoc (currentPage s))) (\<lambda>page.
     await (pdf_save e (put_page pdfDoc (currentPage s) page)) (\<lambda>modifiedPdfBytes.
       Normal [Download (''modified_'' @ file_name f) (Blob modifiedPdfBytes ''application/pdf'')]))))"


subsection \<open>Export as an image, multi-overlay variant (lines 279 to 333)\<close>

text \<open>\<open>pdfDocProxy!.getPage(currentPage)\<close>: a null proxy throws a TypeError, pdf.js
  rejects a page number out of range.\<close>
definition getPage :: "pdfDocumentProxy option \<Rightarrow> nat \<Rightarrow> js_error + dims" where
  "getPage proxy n =
     (case proxy of
        None \<Rightarrow> Inl type_error
      | Some doc \<Rightarrow> if 0 < n \<and> n \<le> length doc then Inr (doc ! (n - 1)) else Inl (Error ''Invalid page request.''))"

definition getViewport :: "dims \<Rightarrow> real \<Rightarrow> dims" where
  "getViewport page scale = \<lparr>dim_width = dim_width page * scale, dim_height = dim_height page * scale\<rparr>"

definition targetDPI :: real where
  "targetDPI = 300"

definition exportScale :: real where
  "exportScale = targetDPI / 72"

definition ctx_drawImage :: "canvas \<Rightarrow> string \<Rightarrow> rect \<Rightarrow> canvas" where
  "ctx_drawImage c src r = c\<lparr>canvas_ops := canvas_ops c @ [DrawImage src r]\<rparr>"

text \<open>The rectangle of \<open>ctx.drawImage\<close>, lines 314 to 319.\<close>
definition scaled_rect :: "rect \<Rightarrow> real \<Rightarrow> rect" where
  "scaled_rect p scale =
     (let scaledWidth = (rect_width p / scale) * exportScale;
          scaledHeight = (rect_height p / scale) * exportScale;
          scaledX = (rect_x p / scale) * exportScale;
          scaledY = (rect_y p / scale) * exportScale
      in \<lparr>rect_x = scaledX, rect_y = scaledY, rect_width = scaledWidth, rect_height = scaledHeight\<rparr>)"

text \<open>The loop of lines 306 to 320. The promise awaited at lines 309 to 311 is resolved
  by \<open>onload\<close> only: when the image never loads, the handler never continues.\<close>
fun draw_overlay_images :: "env \<Rightarrow> real \<Rightarrow> overlayImage list \<Rightarrow> canvas \<Rightarrow> canvas completion" where
  "draw_overlay_images e scale [] c = Normal c"
| "draw_overlay_images e scale (overlayImg # rest) c =
     (if image_onload e (previewUrl overlayImg)
      then draw_overlay_images e scale rest
             (ctx_drawImage c (previewUrl overlayImg) (scaled_rect (pos overlayImg) scale))
      else Hangs)"

text \<open>\<open>name.replace(/\.[^/.]+$/, "")\<close>: a last extension, if any, is removed.\<close>
definition baseName_of :: "string \<Rightarrow> string" where
  "baseName_of name =
     (let ext = takeWhile (\<lambda>c. c \<noteq> CHR ''.'' \<and> c \<noteq> CHR ''/'') (rev name);
          rest = drop (length ext) (rev name)
      in if ext \<noteq> [] \<and> rest \<noteq> [] \<and> hd rest = CHR ''.'' then rev (tl rest) else name)"

text \<open>The decimal digits of a number in a template string.\<close>
function string_of_nat :: "nat \<Rightarrow> string" where
  "string_of_nat n =
     (if n < 10 then [''0123456789'' ! n] else string_of_nat (n div 10) @ [''0123456789'' ! (n mod 10)])"
  by pat_completeness auto
termination
  by (relation "measure id") auto

fun format_name :: "export_format \<Rightarrow> string" where
  "format_name Pdf = ''pdf''"
| "format_name Jpg = ''jpg''"
| "format_name Png = ''png''"

definition mimeType_of :: "export_format \<Rightarrow> string" where
  "mimeType_of fmt = (if fmt = Jpg then ''image/jpeg'' else ''image/png'')"

definition page_download_name :: "upload_file \<Rightarrow> nat \<Rightarrow> export_format \<Rightarrow> string" where
  "page_download_name f n fmt =
     baseName_of (file_name f) @ ''_page'' @ string_of_nat n @ ''.'' @ format_name fmt"

definition render_to :: "env \<Rightarrow> canvas \<Rightarrow> nat \<Rightarrow> real \<Rightarrow> js_error + canvas" where
  "render_to e c n scale =
     (case page_render e n scale of
        Some err \<Rightarrow> Inl err
      | None \<Rightarrow> Inr (c\<lparr>canvas_ops := canvas_ops c @ [RenderPage n scale]\<rparr>))"

definition export_image_multi :: "env \<Rightarrow> multi_state \<Rightarrow> upload_file \<Rightarrow> (effect list) completion" where
  "export_image_multi e s f =
     (if \<not> getContext e then Throws (Error ''Could not create canvas context'')
      else
        await (getPage (pdfDocProxy s) (currentPage s)) (\<lambda>page.
          let viewport = getViewport page exportScale;
              exportCanvas = \<lparr>canvas_width = dim_width viewport, canvas_height = dim_height viewport,
                               canvas_ops = []\<rparr>
          in
        await (render_to e exportCanvas (currentPage s) exportScale) (\<lambda>rendered.
        then_do (draw_overlay_images e (renderScale s) (overlayImages s) rendered) (\<lambda>composed.
          let dataUrl = toDataURL e composed (mimeType_of (exportFormat s)) 1.0
          in Normal [Download (page_download_name f (currentPage s) (exportFormat s)) (DataUrl dataUrl)]))))"

text \<open>\<open>error instanceof Error ? error.message : ''\<close>, lines 337 and 861.\<close>
definition message_or_empty :: "js_error \<Rightarrow> string" where
  "message_or_empty err = (case err of Error message \<Rightarrow> message | NonError v \<Rightarrow> [])"

text \<open>The \<open>catch\<close> and \<open>finally\<close> of both variants (lines 335 to 340 and 859 to 864):
  a thrown error is logged and reported, and the flag is reset once the block has ended.\<close>
definition finish_export :: "'a view_state_scheme \<Rightarrow> (effect list) completion \<Rightarrow> ('a view_state_scheme) outcome" where
  "finish_export s r =
     (case r of
        Normal effs \<Rightarrow> Settled (s\<lparr>isExporting := False\<rparr>) effs
      | Throws err \<Rightarrow>
          Settled (s\<lparr>isExporting := False\<rparr>)
            [ConsoleError ''Export error:'' err, Alert (''Failed to export. '' @ message_or_empty err)]
      | Hangs \<Rightarrow> Pending s)"

text \<open>\<open>handleExport\<close> of the multi-overlay variant, lines 218 to 341.\<close>
definition handleExport_multi :: "env \<Rightarrow> multi_state \<Rightarrow> multi_state outcome" where
  "handleExport_multi e s =
     (case pdfFile s of
        None \<Rightarrow> Settled s []
      | Some f \<Rightarrow>
          if \<not> canvasRef s then Settled s []
          else
            (let s1 = s\<lparr>isExporting := True\<rparr>
             in finish_export s1
                  (if exportFormat s1 = Pdf then export_pdf_multi e s1 f else export_image_multi e s1 f)))"

subsection \<open>Export, single-overlay variant (lines 750 to 865)\<close>

definition export_pdf_single :: "env \<Rightarrow> single_state \<Rightarrow> upload_file \<Rightarrow> upload_file \<Rightarrow> (effect list) completion" where
  "export_pdf_single e s f imgFile =
     await (arrayBuffer e f) (\<lambda>pdfBytes.
     await (pdf_load e pdfBytes) (\<lambda>pdfDoc.
     await (arrayBuffer e imgFile) (\<lambda>imageBytes.
     await (embed_image e imgFile imageBytes) (\<lambda>pdfImage.
       case target_page pdfDoc (currentPage s) of
         None \<Rightarrow> Throws type_error
       | Some page \<Rightarrow>
           await (pdf_save e (put_page pdfDoc (currentPage s)
                    (Some (drawImage page pdfImage
                       (drawImage_options (imagePos s) (renderScale s) (page_height page))))))
             (\<lambda>modifiedPdfBytes.
                Normal [Download (''modified_'' @ file_name f) (Blob modifiedPdfBytes ''application/pdf'')])))))"

text \<open>The rectangle of \<open>ctx.drawImage\<close>, lines 839 to 844.\<close>
definition original_rect :: "rect \<Rightarrow> real \<Rightarrow> rect" where
  "original_rect p scale =
     (let originalWidth = rect_width p / scale;
          originalHeight = rect_height p / scale;
          originalX = rect_x p / scale;
          originalY = rect_y p / scale
      in \<lparr>rect_x = originalX, rect_y = originalY, rect_width = originalWidth, rect_height = originalHeight\<rparr>)"

definition export_image_single :: "env \<Rightarrow> single_state \<Rightarrow> upload_file \<Rightarrow> string \<Rightarrow> (effect list) completion" where
  "export_image_single e s f url =
     (if \<not> getContext e then Throws (Error ''Could not create canvas context'')
      else
        (let exportCanvas = \<lparr>canvas_width = dim_width (originalDimensions s),
                              canvas_height = dim_height (originalDimensions s), canvas_ops = []\<rparr>
         in
        await (getPage (pdfDocProxy s) (currentPage s)) (\<lambda>page.
        await (render_to e exportCanvas (currentPage s) 1) (\<lambda>rendered.
          if image_onload e url
          then
            (let composed = ctx_drawImage rendered url (original_rect (imagePos s) (renderScale s));
                 dataUrl = toDataURL e composed (mimeType_of (exportFormat s)) 0.9
             in Normal [Download (page_download_name f (currentPage s) (exportFormat s)) (DataUrl dataUrl)])
          else Hangs))))"

text \<open>\<open>handleExport\<close> of the single-overlay variant; an empty string is falsy.\<close>
definition handleExport_single :: "env \<Rightarrow> single_state \<Rightarrow> single_state outcome" where
  "handleExport_single e s =
     (case (pdfFile s, imageFile s, imagePreviewUrl s) of
        (Some f, Some imgFile, Some url) \<Rightarrow>
          if url = [] \<or> \<not> canvasRef s then Settled s []
          else
            (let s1 = s\<lparr>isExporting := True\<rparr>
             in finish_export s1
                  (if exportFormat s1 = Pdf then export_pdf_single e s1 f imgFile
                   else export_image_single e s1 f url))
      | _ \<Rightarrow> Settled s [])"


section \<open>Intake\<close>

text \<open>\<open>String.prototype.startsWith\<close>.\<close>
definition startsWith :: "string \<Rightarrow> string \<Rightarrow> bool" where
  "startsWith s p = (take (length p) s = p)"

text \<open>\<open>handlePdfUpload\<close>, lines 39 to 45.\<close>
definition handlePdfUpload_multi :: "upload_file \<Rightarrow> multi_state \<Rightarrow> multi_state \<times> effect list" where
  "handlePdfUpload_multi f s =
     (if file_type f = ''application/pdf'' then (s\<lparr>pdfFile := Some f\<rparr>, [])
      else (s, [Alert ''Please select a valid PDF file.'']))"

text \<open>
  The body of \<open>forEach\<close>, lines 50 to 60. The identifier drawn from \<open>Math.random\<close> and the
  URL made by \<open>URL.createObjectURL\<close> are given by \<open>mk_id\<close> and \<open>mk_url\<close>, indexed by
  the number of images accepted so far in this call.
\<close>
fun collect_images :: "(nat \<Rightarrow> string) \<Rightarrow> (nat \<Rightarrow> string) \<Rightarrow> upload_file list \<Rightarrow> overlayImage list \<Rightarrow> overlayImage list" where
  "collect_images mk_id mk_url [] newImages = newImages"
| "collect_images mk_id mk_url (f # files) newImages =
     collect_images mk_id mk_url files
       (if startsWith (file_type f) ''image/''
        then newImages @
          [\<lparr>img_id = mk_id (length newImages), img_file = f, previewUrl = mk_url (length newImages),
            pos = \<lparr>rect_x = 50 + real (length newImages) * 20, rect_y = 50 + real (length newImages) * 20,
                   rect_width = 150, rect_height = 150\<rparr>\<rparr>]
        else newImages)"

text \<open>\<open>handleImageUpload\<close> of the multi-overlay variant, lines 48 to 67.\<close>
definition handleImageUpload_multi :: "(nat \<Rightarrow> string) \<Rightarrow> (nat \<Rightarrow> string) \<Rightarrow> upload_file list \<Rightarrow> multi_state \<Rightarrow> multi_state \<times> effect list" where
  "handleImageUpload_multi mk_id mk_url files s =
     (let newImages = collect_images mk_id mk_url files []
      in if length newImages > 0 then (s\<lparr>overlayImages := overlayImages s @ newImages\<rparr>, [])
         else (s, [Alert ''Please select valid image files.'']))"

text \<open>\<open>handleDrop\<close>, lines 82 to 101.\<close>
definition handleDrop :: "(nat \<Rightarrow> string) \<Rightarrow> (nat \<Rightarrow> string) \<Rightarrow> upload_file list \<Rightarrow> multi_state \<Rightarrow> multi_state \<times> effect list" where
  "handleDrop mk_id mk_url files s0 =
     (let s = s0\<lparr>isDraggingOver := False\<rparr>
      in if length files = 0 then (s, [])
         else
           (let (s1, effs1) =
                  (case find (\<lambda>f. file_type f = ''application/pdf'') files of
                     Some pdf \<Rightarrow> handlePdfUpload_multi pdf s
                   | None \<Rightarrow> (s, []));
                imageFiles = filter (\<lambda>f. startsWith (file_type f) ''image/'') files
            in if length imageFiles > 0
               then (let (s2, effs2) = handleImageUpload_multi mk_id mk_url imageFiles s1
                     in (s2, effs1 @ effs2))
               else (s1, effs1)))"

text \<open>\<open>removeImage\<close>, lines 103 to 105.\<close>
definition removeImage :: "string \<Rightarrow> multi_state \<Rightarrow> multi_state" where
  "removeImage ident s = s\<lparr>overlayImages := filter (\<lambda>img. img_id img \<noteq> ident) (overlayImages s)\<rparr>"

text \<open>\<open>Partial<OverlayImage['pos']>\<close> and the spread \<open>{ ...img.pos, ...newPos }\<close>.\<close>
record partial_rect =
  part_x :: "real option"
  part_y :: "real option"
  part_width :: "real option"
  part_height :: "real option"

definition spread_pos :: "rect \<Rightarrow> partial_rect \<Rightarrow> rect" where
  "spread_pos p newPos =
     \<lparr>rect_x = (case part_x newPos of Some v \<Rightarrow> v | None \<Rightarrow> rect_x p),
      rect_y = (case part_y newPos of Some v \<Rightarrow> v | None \<Rightarrow> rect_y p),
      rect_width = (case part_width newPos of Some v \<Rightarrow> v | None \<Rightarrow> rect_width p),
      rect_height = (case part_height newPos of Some v \<Rightarrow> v | None \<Rightarrow> rect_height p)\<rparr>"

text \<open>\<open>updateImagePos\<close>, lines 107 to 111.\<close>
definition updateImagePos :: "string \<Rightarrow> partial_rect \<Rightarrow> multi_state \<Rightarrow> multi_state" where
  "updateImagePos ident newPos s =
     s\<lparr>overlayImages :=
         map (\<lambda>img. if img_id img = ident then img\<lparr>pos := spread_pos (pos img) newPos\<rparr> else img)
           (overlayImages s)\<rparr>"

text \<open>\<open>handlePdfUpload\<close> and \<open>handleImageUpload\<close> of the single-overlay variant, lines 621
  to 643; the argument is \<open>e.target.files?.[0]\<close>.\<close>
definition handlePdfUpload_single :: "upload_file option \<Rightarrow> single_state \<Rightarrow> single_state \<times> effect list" where
  "handlePdfUpload_single file s =
     (case file of
        Some f \<Rightarrow>
          if file_type f = ''application/pdf'' then (s\<lparr>pdfFile := Some f\<rparr>, [])
          else (s, [Alert ''Please select a valid PDF file.''])
      | None \<Rightarrow> (s, [Alert ''Please select a valid PDF file.'']))"

definition handleImageUpload_single :: "string \<Rightarrow> upload_file option \<Rightarrow> single_state \<Rightarrow> single_state \<times> effect list" where
  "handleImageUpload_single url file s =
     (case file of
        Some f \<Rightarrow>
          if startsWith (file_type f) ''image/''
          then (s\<lparr>imageFile := Some f, imagePreviewUrl := Some url,
                   imagePos := \<lparr>rect_x = 50, rect_y = 50, rect_width = 150, rect_height = 150\<rparr>\<rparr>, [])
          else (s, [Alert ''Please select a valid image file.''])
      | None \<Rightarrow> (s, [Alert ''Please select a valid image file.'']))"

section \<open>Loading, clearing and rendering the document\<close>



text \<open>\<open>containerRef.current?.clientWidth || 800\<close>: \<open>undefined\<close> and 0 are falsy.\<close>
definition or_default :: "nat option \<Rightarrow> nat \<Rightarrow> nat" where
  "or_default v d = (case v of None \<Rightarrow> d | Some n \<Rightarrow> if n = 0 then d else n)"

text \<open>The scale of lines 161 to 172 and 693 to 704.\<close>
definition fit_scale :: "nat option \<Rightarrow> nat option \<Rightarrow> dims \<Rightarrow> real" where
  "fit_scale clientWidth clientHeight unscaledViewport =
     (let containerWidth = or_default clientWidth 800;
          containerHeight = or_default clientHeight 600;
          padding = 40;
          availableWidth = real containerWidth - padding;
          availableHeight = real containerHeight - padding
      in min (availableWidth / dim_width unscaledViewport) (availableHeight / dim_height unscaledViewport))"

text \<open>The state written by \<open>renderPage\<close> (lines 152 to 182 and 684 to 714) while the
  component is mounted; \<open>container\<close> is the client size of \<open>containerRef.current\<close>.\<close>
definition renderPage :: "(nat \<times> nat) option \<Rightarrow> 'a view_state_scheme \<Rightarrow> 'a view_state_scheme" where
  "renderPage container s =
     (case (pdfDocProxy s, container) of
        (Some doc, Some (clientWidth, clientHeight)) \<Rightarrow>
          if \<not> canvasRef s then s
          else
            (case getPage (Some doc) (currentPage s) of
               Inl err \<Rightarrow> s
             | Inr page \<Rightarrow>
                 (let unscaledViewport = getViewport page 1;
                      scale = fit_scale (Some clientWidth) (Some clientHeight) unscaledViewport;
                      viewport = getViewport page scale
                  in s\<lparr>originalDimensions := unscaledViewport, renderScale := scale,
                       pageDimensions := viewport\<rparr>))
      | _ \<Rightarrow> s)"

section \<open>The interaction surface\<close>

text \<open>The properties handed to \<open>Rnd\<close> of react-rnd; a property that the source does not
  pass is \<open>None\<close>.\<close>
record rnd_props =
  rnd_bounds :: string
  rnd_position :: "real \<times> real"
  rnd_size :: "real \<times> real"
  lockAspectRatio :: "bool option"

text \<open>Lines 549 to 554, multi-overlay variant.\<close>
definition Rnd_multi :: "overlayImage \<Rightarrow> rnd_props" where
  "Rnd_multi img =
     \<lparr>rnd_bounds = ''parent'', rnd_position = (rect_x (pos img), rect_y (pos img)),
      rnd_size = (rect_width (pos img), rect_height (pos img)), lockAspectRatio = Some True\<rparr>"

text \<open>Lines 1048 to 1051, single-overlay variant.\<close>
definition Rnd_single :: "rect \<Rightarrow> rnd_props" where
  "Rnd_single imagePos' =
     \<lparr>rnd_bounds = ''parent'', rnd_position = (rect_x imagePos', rect_y imagePos'),
      rnd_size = (rect_width imagePos', rect_height imagePos'), lockAspectRatio = None\<rparr>"


text \<open>Whether the aspect ratio is locked: the property when the source passes it, the
  default of the library (a parameter here, \<open>false\<close> in react-rnd) when it does not.\<close>
definition lock_enabled :: "bool \<Rightarrow> rnd_props \<Rightarrow> bool" where
  "lock_enabled library_default p =
     (case lockAspectRatio p of Some b \<Rightarrow> b | None \<Rightarrow> library_default)"

text \<open>The initial values of the state hooks, lines 20 to 36 and 601 to 618; the canvas is
  not mounted while no document is chosen (lines 529 and 1030).\<close>
definition initial_multi :: multi_state where
  "initial_multi =
     \<lparr>pdfFile = None, pdfDocProxy = None, currentPage = 1, numPages = 0, canvasRef = False,
      pageDimensions = \<lparr>dim_width = 0, dim_height = 0\<rparr>, renderScale = 1,
      originalDimensions = \<lparr>dim_width = 0, dim_height = 0\<rparr>, isExporting = False,
      exportFormat = Pdf, overlayImages = [], isDraggingOver = False\<rparr>"

definition initial_single :: single_state where
  "initial_single =
     \<lparr>pdfFile = None, pdfDocProxy = None, currentPage = 1, numPages = 0, canvasRef = False,
      pageDimensions = \<lparr>dim_width = 0, dim_height = 0\<rparr>, renderScale = 1,
      originalDimensions = \<lparr>dim_width = 0, dim_height = 0\<rparr>, isExporting = False,
      exportFormat = Pdf, imageFile = None, imagePreviewUrl = None,
      imagePos = \<lparr>rect_x = 50, rect_y = 50, rect_width = 150, rect_height = 150\<rparr>\<rparr>"

section \<open>The coordinate transforms as the specification words them\<close>

text \<open>
  \<open>toDocumentSpace(rect, displayScale, pageNativeHeight)\<close>: \<open>x' = rect.x / displayScale\<close>,
  \<open>width' = rect.width / displayScale\<close>, likewise the height, and
  \<open>y' = pageNativeHeight - (rect.y / displayScale) - height'\<close>.
\<close>
definition toDocumentSpace :: "rect \<Rightarrow> real \<Rightarrow> real \<Rightarrow> rect" where
  "toDocumentSpace r displayScale pageNativeHeight =
     \<lparr>rect_x = rect_x r / displayScale,
      rect_y = pageNativeHeight - (rect_y r / displayScale) - rect_height r / displayScale,
      rect_width = rect_width r / displayScale,
      rect_height = rect_height r / displayScale\<rparr>"

text \<open>
  \<open>toRasterSpace(rect, displayScale, rasterScale)\<close>: no flip,
  \<open>factor = rasterScale / displayScale\<close>, applied to all four fields.
\<close>
definition toRasterSpace :: "rect \<Rightarrow> real \<Rightarrow> real \<Rightarrow> rect" where
  "toRasterSpace r displayScale rasterScale =
     (let factor = rasterScale / displayScale
      in \<lparr>rect_x = rect_x r * factor, rect_y = rect_y r * factor,
          rect_width = rect_width r * factor, rect_height = rect_height r * factor\<rparr>)"

text \<open>
  Modelled from the spec: \<open>toDisplaySpace\<close>, the inverse display-space transform of the
  round-trip property, which the source does not contain. It scales a document-space
  rectangle by \<open>displayScale\<close> and flips the vertical axis back to the top-left origin.
\<close>
definition toDisplaySpace :: "rect \<Rightarrow> real \<Rightarrow> real \<Rightarrow> rect" where
  "toDisplaySpace d displayScale pageNativeHeight =
     \<lparr>rect_x = rect_x d * displayScale,
      rect_y = (pageNativeHeight - rect_y d - rect_height d) * displayScale,
      rect_width = rect_width d * displayScale,
      rect_height = rect_height d * displayScale\<rparr>"

section \<open>Sample inputs\<close>

definition sample_pdf :: upload_file where
  "sample_pdf = \<lparr>file_name = ''doc.pdf'', file_type = ''application/pdf'', file_bytes = [37, 80, 68, 70]\<rparr>"

definition sample_png :: upload_file where
  "sample_png = \<lparr>file_name = ''a.png'', file_type = ''image/png'', file_bytes = [137, 80, 78, 71]\<rparr>"

definition sample_jpeg :: upload_file where
  "sample_jpeg = \<lparr>file_name = ''b.jpg'', file_type = ''image/jpeg'', file_bytes = [255, 216, 255]\<rparr>"

definition sample_gif :: upload_file where
  "sample_gif = \<lparr>file_name = ''c.gif'', file_type = ''image/gif'', file_bytes = [71, 73, 70]\<rparr>"

definition sample_txt :: upload_file where
  "sample_txt = \<lparr>file_name = ''notes.txt'', file_type = ''text/plain'', file_bytes = [104, 105]\<rparr>"

definition sample_ids :: "nat \<Rightarrow> string" where
  "sample_ids k = ''id'' @ string_of_nat k"

definition sample_urls :: "nat \<Rightarrow> string" where
  "sample_urls k = ''blob:'' @ string_of_nat k"

definition letter_page :: dims where
  "letter_page = \<lparr>dim_width = 612, dim_height = 792\<rparr>"

definition sample_rect :: rect where
  "sample_rect = \<lparr>rect_x = 50, rect_y = 50, rect_width = 150, rect_height = 150\<rparr>"

definition overlay_A :: overlayImage where
  "overlay_A = \<lparr>img_id = ''A'', img_file = sample_png, previewUrl = ''blob:A'', pos = sample_rect\<rparr>"

definition overlay_B :: overlayImage where
  "overlay_B = \<lparr>img_id = ''B'', img_file = sample_jpeg, previewUrl = ''blob:B'',
                 pos = \<lparr>rect_x = 0, rect_y = 0, rect_width = 300, rect_height = 300\<rparr>\<rparr>"

definition overlay_C :: overlayImage where
  "overlay_C = \<lparr>img_id = ''C'', img_file = sample_png, previewUrl = ''blob:C'',
                 pos = \<lparr>rect_x = 70, rect_y = 70, rect_width = 10, rect_height = 10\<rparr>\<rparr>"

text \<open>Collaborators that all succeed on a one-page document of 612 by 792 units.\<close>
definition sample_env :: env where
  "sample_env =
     \<lparr>arrayBuffer = (\<lambda>f. Inr (file_bytes f)),
      getDocument = (\<lambda>b. Inr [letter_page]),
      pdf_load = (\<lambda>b. Inr [\<lparr>page_height = 792, page_drawn = []\<rparr>]),
      embedPng = (\<lambda>b. Inr (PngImage b)),
      embedJpg = (\<lambda>b. Inr (JpgImage b)),
      pdf_save = (\<lambda>d. Inr (map (\<lambda>p. length (page_drawn p)) d)),
      getContext = True,
      page_render = (\<lambda>n scale. None),
      image_onload = (\<lambda>url. True),
      toDataURL = (\<lambda>c mime quality. ''data:'' @ mime)\<rparr>"

text \<open>The same collaborators, except that embedding a PNG image fails with a thrown
  string.\<close>
definition failing_env :: env where
  "failing_env = sample_env\<lparr>embedPng := (\<lambda>b. Inl (NonError ''corrupt image''))\<rparr>"

text \<open>The same collaborators, except that the preview of overlay B never fires
  \<open>onload\<close>.\<close>
definition stalled_env :: env where
  "stalled_env = sample_env\<lparr>image_onload := (\<lambda>url. url \<noteq> ''blob:B'')\<rparr>"

text \<open>The same collaborators, except that pdf.js cannot parse the document.\<close>
definition unreadable_env :: env where
  "unreadable_env = sample_env\<lparr>getDocument := (\<lambda>b. Inl (Error ''Invalid PDF structure.''))\<rparr>"

definition other_pdf :: upload_file where
  "other_pdf = \<lparr>file_name = ''other.pdf'', file_type = ''application/pdf'', file_bytes = [37, 80]\<rparr>"

text \<open>The placement that an upload of the GIF file alone creates.\<close>
definition overlay_gif :: overlayImage where
  "overlay_gif = \<lparr>img_id = ''id0'', img_file = sample_gif, previewUrl = ''blob:0'', pos = sample_rect\<rparr>"

text \<open>A loaded one-page document shown in the default 800 by 600 container.\<close>
definition loaded_multi :: multi_state where
  "loaded_multi =
     initial_multi\<lparr>pdfFile := Some sample_pdf, pdfDocProxy := Some [letter_page], numPages := 1,
       canvasRef := True, pageDimensions := \<lparr>dim_width = 4760 / 11, dim_height = 560\<rparr>,
       renderScale := 70 / 99, originalDimensions := letter_page,
       overlayImages := [overlay_A, overlay_B, overlay_C]\<rparr>"

definition loaded_single :: single_state where
  "loaded_single =
     initial_single\<lparr>pdfFile := Some sample_pdf, pdfDocProxy := Some [letter_page], numPages := 1,
       canvasRef := True, pageDimensions := \<lparr>dim_width = 4760 / 11, dim_height = 560\<rparr>,
       renderScale := 70 / 99, originalDimensions := letter_page,
       imageFile := Some sample_png, imagePreviewUrl := Some ''blob:A''\<rparr>"


section \<open>Auxiliary lemmas\<close>


lemma scaled_rect_spec: "scaled_rect r sc = toRasterSpace r sc exportScale"
  by (simp add: scaled_rect_def toRasterSpace_def Let_def)

lemma original_rect_spec: "original_rect r sc = toRasterSpace r sc 1"
  by (simp add: original_rect_def toRasterSpace_def Let_def)

lemma await_Normal: "await r k = Normal v \<Longrightarrow> \<exists>x. r = Inr x \<and> k x = Normal v"
  by (cases r) auto

lemma await_not_Hangs: "(\<And>x. k x \<noteq> Hangs) \<Longrightarrow> await r k \<noteq> Hangs"
  by (cases r) auto

lemma then_do_Normal: "then_do m k = Normal v \<Longrightarrow> \<exists>x. m = Normal x \<and> k x = Normal v"
  by (cases m) auto


lemma draw_all_images_not_Hangs: "draw_all_images e sc imgs page \<noteq> Hangs"
proof (induction imgs arbitrary: page)
  case Nil
  then show ?case by simp
next
  case (Cons img rest)
  show ?case
    by (cases "arrayBuffer e (img_file img)"; cases "embed_image e (img_file img) (projr (arrayBuffer e (img_file img)))"; cases page)
       (auto simp: Cons.IH)
qed

lemma draw_all_images_None: "draw_all_images e sc imgs None = Normal res \<Longrightarrow> imgs = [] \<and> res = None"
  by (cases imgs) (auto dest!: await_Normal)





lemma draw_overlay_images_ops:
  "\<forall>ov\<in>set imgs. image_onload e (previewUrl ov) \<Longrightarrow>
     draw_overlay_images e sc imgs c =
       Normal (c\<lparr>canvas_ops := canvas_ops c @ map (\<lambda>ov. DrawImage (previewUrl ov) (scaled_rect (pos ov) sc)) imgs\<rparr>)"
  by (induction imgs arbitrary: c) (simp_all add: ctx_drawImage_def)

lemma draw_overlay_images_not_Throws: "draw_overlay_images e sc imgs c \<noteq> Throws err"
  by (induction imgs arbitrary: c) simp_all

lemma draw_overlay_images_Hangs:
  "draw_overlay_images e sc imgs c = Hangs \<Longrightarrow> \<exists>ov\<in>set imgs. \<not> image_onload e (previewUrl ov)"
  by (induction imgs arbitrary: c) (auto split: if_splits)

lemma export_pdf_multi_not_Hangs: "export_pdf_multi e s f \<noteq> Hangs"
proof -
  have "then_do (draw_all_images e sc imgs pg) (\<lambda>page. await (r page) k) \<noteq> Hangs"
    if "\<And>x. k x \<noteq> Hangs" for sc imgs pg and r :: "pdfPage option \<Rightarrow> js_error + bytes" and k :: "bytes \<Rightarrow> effect list completion"
    using that draw_all_images_not_Hangs [of e sc imgs pg]
    by (cases "draw_all_images e sc imgs pg") (auto simp: await_not_Hangs)
  then show ?thesis
    unfolding export_pdf_multi_def
    by (intro await_not_Hangs) simp
qed

lemma export_pdf_multi_Normal:
  "export_pdf_multi e s f = Normal effs \<Longrightarrow> \<exists>nm p. effs = [Download nm p]"
  by (auto simp: export_pdf_multi_def dest!: await_Normal then_do_Normal)

lemma export_image_multi_Normal:
  "export_image_multi e s f = Normal effs \<Longrightarrow> \<exists>nm p. effs = [Download nm p]"
  by (auto simp: export_image_multi_def Let_def dest!: await_Normal then_do_Normal split: if_splits)

lemma then_do_Hangs: "then_do m k = Hangs \<Longrightarrow> m = Hangs \<or> (\<exists>x. m = Normal x \<and> k x = Hangs)"
  by (cases m) auto

lemma await_Hangs: "await r k = Hangs \<Longrightarrow> \<exists>x. r = Inr x \<and> k x = Hangs"
  by (cases r) auto

lemma export_image_multi_Hangs:
  "export_image_multi e s f = Hangs \<Longrightarrow> \<exists>ov\<in>set (overlayImages s). \<not> image_onload e (previewUrl ov)"
  by (auto simp: export_image_multi_def Let_def split: if_splits
        dest!: await_Hangs then_do_Hangs draw_overlay_images_Hangs)

lemma collect_images_append:
  "\<exists>new. collect_images ids urls files acc = acc @ new
     \<and> map img_file new = filter (\<lambda>f. startsWith (file_type f) ''image/'') files"
proof (induction files arbitrary: acc)
  case Nil
  then show ?case by simp
next
  case (Cons f files)
  show ?case
  proof (cases "startsWith (file_type f) ''image/''")
    case True
    define x where "x = \<lparr>img_id = ids (length acc), img_file = f, previewUrl = urls (length acc),
            pos = \<lparr>rect_x = 50 + real (length acc) * 20, rect_y = 50 + real (length acc) * 20,
                   rect_width = 150, rect_height = 150\<rparr>\<rparr>"
    from Cons.IH [of "acc @ [x]"] obtain new where
      new: "collect_images ids urls files (acc @ [x]) = (acc @ [x]) @ new"
        "map img_file new = filter (\<lambda>f. startsWith (file_type f) ''image/'') files"
      by blast
    have "collect_images ids urls (f # files) acc = acc @ (x # new)"
      using True new(1) by (simp add: x_def)
    moreover have "map img_file (x # new) = filter (\<lambda>f. startsWith (file_type f) ''image/'') (f # files)"
      using True new(2) by (simp add: x_def)
    ultimately show ?thesis by blast
  next
    case False
    with Cons.IH [of acc] show ?thesis by simp
  qed
qed

lemma collect_images_files:
  "map img_file (collect_images ids urls files []) = filter (\<lambda>f. startsWith (file_type f) ''image/'') files"
  using collect_images_append [of ids urls files "[]"] by auto

lemma handleImageUpload_multi_store:
  "overlayImages (fst (handleImageUpload_multi ids urls files s)) =
     overlayImages s @ collect_images ids urls files []"
  by (simp add: handleImageUpload_multi_def Let_def)

lemmas sample_defs =
  sample_env_def failing_env_def stalled_env_def unreadable_env_def other_pdf_def overlay_gif_def
  loaded_multi_def loaded_single_def initial_multi_def initial_single_def
  overlay_A_def overlay_B_def overlay_C_def sample_rect_def letter_page_def
  sample_pdf_def sample_png_def sample_jpeg_def sample_gif_def sample_txt_def

lemmas export_defs =
  handleExport_multi_def handleExport_single_def finish_export_def export_pdf_multi_def
  export_pdf_single_def export_image_multi_def export_image_single_def target_page_def put_page_def
  embed_image_def drawImage_def drawImage_options_def getPage_def getViewport_def render_to_def
  ctx_drawImage_def scaled_rect_def original_rect_def mimeType_of_def page_download_name_def
  exportScale_def targetDPI_def message_or_empty_def unsupported_format_def type_error_def Let_def


section \<open>C1: the rectangle of the document export\<close>





section \<open>C2: the display scale\<close>

text \<open>
  Claim C2. For a page of native size \<open>page\<close> (both sides positive) and a container of
  client size \<open>w\<close> by \<open>ht\<close>, the page-render step sets the display scale to
  \<open>min ((w - 40) / nativeWidth) ((ht - 40) / nativeHeight)\<close>, where a client size
  that is missing or zero is replaced by 800 (width) or 600 (height) as the source does.
  For a page of 612 by 792 units in a container of 800 by 600 the scale is
  \<open>min (760 / 612) (560 / 792) = 70 / 99\<close>, which rounds to 0.7071, and the placement
  \<open>{x: 50, y: 50, width: 150, height: 150}\<close> is exported at the document rectangle
  \<open>{x: 495 / 7, y: 3564 / 7, width: 1485 / 7, height: 1485 / 7}\<close>, about
  \<open>{70.714, 509.143, 212.143, 212.143}\<close>: each figure of the claim (70.71, 509.16,
  212.13, 212.13) lies within 0.02 of it.
\<close>
theorem display_scale_fit:
  assumes "0 < dim_width page" and "0 < dim_height page"
  shows "fit_scale cw ch page =
           min ((real (or_default cw 800) - 40) / dim_width page)
               ((real (or_default ch 600) - 40) / dim_height page)
    \<and> (0 < w \<and> 0 < ht \<longrightarrow>
         fit_scale (Some w) (Some ht) page =
           min ((real w - 40) / dim_width page) ((real ht - 40) / dim_height page))
    \<and> (0 < w \<and> 0 < ht \<and> pdfDocProxy s = Some doc \<and> canvasRef s
         \<and> getPage (Some doc) (currentPage s) = Inr page \<longrightarrow>
         renderScale (renderPage (Some (w, ht)) s) =
           min ((real w - 40) / dim_width page) ((real ht - 40) / dim_height page))
    \<and> fit_scale (Some 800) (Some 600) letter_page = min (760 / 612) (560 / 792)
    \<and> fit_scale (Some 800) (Some 600) letter_page = 70 / 99
    \<and> \<bar>fit_scale (Some 800) (Some 600) letter_page - 0.7071\<bar> < 0.00005
    \<and> drawImage_options sample_rect (fit_scale (Some 800) (Some 600) letter_page) (dim_height letter_page) =
         \<lparr>rect_x = 495 / 7, rect_y = 3564 / 7, rect_width = 1485 / 7, rect_height = 1485 / 7\<rparr>
    \<and> \<bar>rect_x (drawImage_options sample_rect (fit_scale (Some 800) (Some 600) letter_page) 792) - 70.71\<bar> < 0.02
    \<and> \<bar>rect_y (drawImage_options sample_rect (fit_scale (Some 800) (Some 600) letter_page) 792) - 509.16\<bar> < 0.02
    \<and> \<bar>rect_width (drawImage_options sample_rect (fit_scale (Some 800) (Some 600) letter_page) 792) - 212.13\<bar> < 0.02
    \<and> \<bar>rect_height (drawImage_options sample_rect (fit_scale (Some 800) (Some 600) letter_page) 792) - 212.13\<bar> < 0.02"
proof -
  have general: "fit_scale cw ch page =
           min ((real (or_default cw 800) - 40) / dim_width page)
               ((real (or_default ch 600) - 40) / dim_height page)"
    by (simp add: fit_scale_def Let_def)
  have measured: "fit_scale (Some w) (Some ht) pg =
           min ((real w - 40) / dim_width pg) ((real ht - 40) / dim_height pg)"
    if "0 < w \<and> 0 < ht" for pg
    using that by (simp add: fit_scale_def or_default_def Let_def)
  have rendered: "renderScale (renderPage (Some (w, ht)) s) =
           min ((real w - 40) / dim_width page) ((real ht - 40) / dim_height page)"
    if "0 < w \<and> 0 < ht \<and> pdfDocProxy s = Some doc \<and> canvasRef s
         \<and> getPage (Some doc) (currentPage s) = Inr page"
    using that by (simp add: renderPage_def getViewport_def Let_def measured)
  have ex: "fit_scale (Some 800) (Some 600) letter_page = 70 / 99"
    by (simp add: fit_scale_def or_default_def letter_page_def Let_def)
  have ex0: "fit_scale (Some 800) (Some 600) letter_page = min (760 / 612) (560 / 792)"
    by (simp add: fit_scale_def or_default_def letter_page_def Let_def)
  have r: "drawImage_options sample_rect (70 / 99) 792 =
         \<lparr>rect_x = 495 / 7, rect_y = 3564 / 7, rect_width = 1485 / 7, rect_height = 1485 / 7\<rparr>"
    by (simp add: drawImage_options_def sample_rect_def Let_def)
  have h: "dim_height letter_page = 792"
    by (simp add: letter_page_def)
  have tol: "\<bar>70 / 99 - 0.7071\<bar> < (0.00005::real)" "\<bar>495 / 7 - 70.71\<bar> < (0.02::real)"
    "\<bar>3564 / 7 - 509.16\<bar> < (0.02::real)" "\<bar>1485 / 7 - 212.13\<bar> < (0.02::real)"
    by simp_all
  from tol have concrete:
    "\<bar>fit_scale (Some 800) (Some 600) letter_page - 0.7071\<bar> < 0.00005"
    "drawImage_options sample_rect (fit_scale (Some 800) (Some 600) letter_page) (dim_height letter_page) =
         \<lparr>rect_x = 495 / 7, rect_y = 3564 / 7, rect_width = 1485 / 7, rect_height = 1485 / 7\<rparr>"
    "\<bar>rect_x (drawImage_options sample_rect (fit_scale (Some 800) (Some 600) letter_page) 792) - 70.71\<bar> < 0.02"
    "\<bar>rect_y (drawImage_options sample_rect (fit_scale (Some 800) (Some 600) letter_page) 792) - 509.16\<bar> < 0.02"
    "\<bar>rect_width (drawImage_options sample_rect (fit_scale (Some 800) (Some 600) letter_page) 792) - 212.13\<bar> < 0.02"
    "\<bar>rect_height (drawImage_options sample_rect (fit_scale (Some 800) (Some 600) letter_page) 792) - 212.13\<bar> < 0.02"
    unfolding ex h r by simp_all
  from general measured rendered ex0 ex concrete show ?thesis
    by blast
qed

theorem display_scale_fit_witness:
  "0 < dim_width letter_page \<and> 0 < dim_height letter_page \<and> (0::nat) < 800 \<and> (0::nat) < 600
   \<and> pdfDocProxy loaded_multi = Some [letter_page] \<and> canvasRef loaded_multi
   \<and> getPage (Some [letter_page]) (currentPage loaded_multi) = Inr letter_page
   \<and> renderScale (renderPage (Some (800, 600)) loaded_multi) =
        min ((real 800 - 40) / dim_width letter_page) ((real 600 - 40) / dim_height letter_page)
   \<and> renderScale (renderPage (Some (800, 600)) loaded_multi) = 70 / 99"
proof -
  have p: "0 < dim_width letter_page" "0 < dim_height letter_page"
    by (simp_all add: letter_page_def)
  have q: "(0::nat) < 800 \<and> (0::nat) < 600
     \<and> pdfDocProxy loaded_multi = Some [letter_page] \<and> canvasRef loaded_multi
     \<and> getPage (Some [letter_page]) (currentPage loaded_multi) = Inr letter_page"
    by (simp add: loaded_multi_def initial_multi_def getPage_def)
  note th = display_scale_fit [OF p, where w = 800 and ht = 600 and s = loaded_multi
      and doc = "[letter_page]"]
  from th q have r: "renderScale (renderPage (Some (800, 600)) loaded_multi) =
        min ((real 800 - 40) / dim_width letter_page) ((real 600 - 40) / dim_height letter_page)"
    by blast
  then have "renderScale (renderPage (Some (800, 600)) loaded_multi) = 70 / 99"
    by (simp add: letter_page_def)
  with p q r show ?thesis by blast
qed

section \<open>C3: the round trip of a placement\<close>

text \<open>
  Claim C3. For every display-space rectangle \<open>r\<close>, display scale \<open>s > 0\<close> and native
  page height \<open>h\<close>, the inverse display-space transform recovers \<open>r\<close> from the
  document-space rectangle, both for \<open>toDocumentSpace\<close> as the specification words it
  and for the rectangle that the export of the source computes (exact arithmetic).
\<close>
theorem round_trip_placement:
  assumes "0 < s"
  shows "toDisplaySpace (toDocumentSpace r s h) s h = r
    \<and> toDisplaySpace (drawImage_options r s h) s h = r"
  using assms
  by (cases r) (simp add: toDisplaySpace_def toDocumentSpace_def drawImage_options_def Let_def)

theorem round_trip_placement_witness:
  "(0::real) < 70 / 99
   \<and> toDocumentSpace sample_rect (70 / 99) 792 =
       \<lparr>rect_x = 495 / 7, rect_y = 3564 / 7, rect_width = 1485 / 7, rect_height = 1485 / 7\<rparr>
   \<and> toDisplaySpace \<lparr>rect_x = 495 / 7, rect_y = 3564 / 7, rect_width = 1485 / 7, rect_height = 1485 / 7\<rparr>
        (70 / 99) 792 = sample_rect"
proof -
  have p: "(0::real) < 70 / 99" by simp
  have d: "toDocumentSpace sample_rect (70 / 99) 792 =
       \<lparr>rect_x = 495 / 7, rect_y = 3564 / 7, rect_width = 1485 / 7, rect_height = 1485 / 7\<rparr>"
    by (simp add: toDocumentSpace_def sample_rect_def)
  from round_trip_placement [OF p, of sample_rect 792] p d show ?thesis
    by simp
qed

section \<open>C4: the rectangle of the raster export\<close>

text \<open>
  Claim C4. The raster branch of the export renders the active page at a fixed scale
  (\<open>exportScale = 300 / 72\<close> in the multi-overlay variant, 1 in the single-overlay
  variant), whatever the display scale \<open>sc > 0\<close> is, and draws every placement at
  \<open>toRasterSpace\<close> of its rectangle: no flip, and the one factor
  \<open>rasterScale / sc\<close> on all of x, y, width and height.
\<close>
theorem raster_export_rect:
  assumes "0 < sc"
  shows "exportScale = 300 / 72
    \<and> scaled_rect r sc = toRasterSpace r sc exportScale
    \<and> rect_x (scaled_rect r sc) = rect_x r * (exportScale / sc)
    \<and> rect_y (scaled_rect r sc) = rect_y r * (exportScale / sc)
    \<and> rect_width (scaled_rect r sc) = rect_width r * (exportScale / sc)
    \<and> rect_height (scaled_rect r sc) = rect_height r * (exportScale / sc)
    \<and> original_rect r sc = toRasterSpace r sc 1
    \<and> (getContext e \<and> renderScale s = sc \<and> getPage (pdfDocProxy s) (currentPage s) = Inr page
         \<and> page_render e (currentPage s) exportScale = None
         \<and> (\<forall>ov\<in>set (overlayImages s). image_onload e (previewUrl ov))
       \<longrightarrow> export_image_multi e s f =
             Normal [Download (page_download_name f (currentPage s) (exportFormat s))
               (DataUrl (toDataURL e
                  \<lparr>canvas_width = dim_width page * exportScale,
                   canvas_height = dim_height page * exportScale,
                   canvas_ops = RenderPage (currentPage s) exportScale #
                     map (\<lambda>ov. DrawImage (previewUrl ov) (toRasterSpace (pos ov) sc exportScale))
                       (overlayImages s)\<rparr>
                  (mimeType_of (exportFormat s)) 1))])
    \<and> (getContext e \<and> renderScale t = sc \<and> getPage (pdfDocProxy t) (currentPage t) = Inr page
         \<and> page_render e (currentPage t) 1 = None \<and> image_onload e u
       \<longrightarrow> export_image_single e t f u =
             Normal [Download (page_download_name f (currentPage t) (exportFormat t))
               (DataUrl (toDataURL e
                  \<lparr>canvas_width = dim_width (originalDimensions t),
                   canvas_height = dim_height (originalDimensions t),
                   canvas_ops = [RenderPage (currentPage t) 1,
                     DrawImage u (toRasterSpace (imagePos t) sc 1)]\<rparr>
                  (mimeType_of (exportFormat t)) 0.9))])"
proof -
  have fields: "exportScale = 300 / 72
    \<and> scaled_rect r sc = toRasterSpace r sc exportScale
    \<and> rect_x (scaled_rect r sc) = rect_x r * (exportScale / sc)
    \<and> rect_y (scaled_rect r sc) = rect_y r * (exportScale / sc)
    \<and> rect_width (scaled_rect r sc) = rect_width r * (exportScale / sc)
    \<and> rect_height (scaled_rect r sc) = rect_height r * (exportScale / sc)
    \<and> original_rect r sc = toRasterSpace r sc 1"
    by (simp add: scaled_rect_def original_rect_def toRasterSpace_def exportScale_def targetDPI_def Let_def)
  have multi: "export_image_multi e s f =
             Normal [Download (page_download_name f (currentPage s) (exportFormat s))
               (DataUrl (toDataURL e
                  \<lparr>canvas_width = dim_width page * exportScale,
                   canvas_height = dim_height page * exportScale,
                   canvas_ops = RenderPage (currentPage s) exportScale #
                     map (\<lambda>ov. DrawImage (previewUrl ov) (toRasterSpace (pos ov) sc exportScale))
                       (overlayImages s)\<rparr>
                  (mimeType_of (exportFormat s)) 1))]"
    if "getContext e \<and> renderScale s = sc \<and> getPage (pdfDocProxy s) (currentPage s) = Inr page
         \<and> page_render e (currentPage s) exportScale = None
         \<and> (\<forall>ov\<in>set (overlayImages s). image_onload e (previewUrl ov))"
    using that
    by (simp add: export_image_multi_def render_to_def getViewport_def Let_def
          draw_overlay_images_ops scaled_rect_spec)
  have single: "export_image_single e t f u =
             Normal [Download (page_download_name f (currentPage t) (exportFormat t))
               (DataUrl (toDataURL e
                  \<lparr>canvas_width = dim_width (originalDimensions t),
                   canvas_height = dim_height (originalDimensions t),
                   canvas_ops = [RenderPage (currentPage t) 1,
                     DrawImage u (toRasterSpace (imagePos t) sc 1)]\<rparr>
                  (mimeType_of (exportFormat t)) 0.9))]"
    if "getContext e \<and> renderScale t = sc \<and> getPage (pdfDocProxy t) (currentPage t) = Inr page
         \<and> page_render e (currentPage t) 1 = None \<and> image_onload e u"
    using that
    by (simp add: export_image_single_def render_to_def ctx_drawImage_def Let_def original_rect_spec)
  from fields multi single show ?thesis by blast
qed


theorem raster_export_rect_witness:
  "(0::real) < 70 / 99 \<and> getContext sample_env
   \<and> renderScale (loaded_multi\<lparr>exportFormat := Jpg\<rparr>) = 70 / 99
   \<and> getPage (pdfDocProxy (loaded_multi\<lparr>exportFormat := Jpg\<rparr>)) (currentPage (loaded_multi\<lparr>exportFormat := Jpg\<rparr>)) = Inr letter_page
   \<and> page_render sample_env (currentPage (loaded_multi\<lparr>exportFormat := Jpg\<rparr>)) exportScale = None
   \<and> overlayImages (loaded_multi\<lparr>exportFormat := Jpg\<rparr>) = [overlay_A, overlay_B, overlay_C]
   \<and> image_onload sample_env (previewUrl overlay_A) \<and> image_onload sample_env (previewUrl overlay_B)
   \<and> image_onload sample_env (previewUrl overlay_C)
   \<and> scaled_rect sample_rect (70 / 99) =
        \<lparr>rect_x = 4125 / 14, rect_y = 4125 / 14, rect_width = 12375 / 14, rect_height = 12375 / 14\<rparr>
   \<and> export_image_multi sample_env (loaded_multi\<lparr>exportFormat := Jpg\<rparr>) sample_pdf =
        Normal [Download ''doc_page1.jpg'' (DataUrl ''data:image/jpeg'')]
   \<and> export_image_single sample_env (loaded_single\<lparr>exportFormat := Png\<rparr>) sample_pdf ''blob:A'' =
        Normal [Download ''doc_page1.png'' (DataUrl ''data:image/png'')]"
proof -
  let ?s = "loaded_multi\<lparr>exportFormat := Jpg\<rparr>"
  let ?t = "loaded_single\<lparr>exportFormat := Png\<rparr>"
  have p: "(0::real) < 70 / 99" by simp
  have q: "getContext sample_env \<and> renderScale ?s = 70 / 99
     \<and> getPage (pdfDocProxy ?s) (currentPage ?s) = Inr letter_page
     \<and> page_render sample_env (currentPage ?s) exportScale = None
     \<and> (\<forall>ov\<in>set (overlayImages ?s). image_onload sample_env (previewUrl ov))"
    by (simp add: sample_env_def loaded_multi_def initial_multi_def getPage_def)
  have q': "getContext sample_env \<and> renderScale ?t = 70 / 99
     \<and> getPage (pdfDocProxy ?t) (currentPage ?t) = Inr letter_page
     \<and> page_render sample_env (currentPage ?t) 1 = None \<and> image_onload sample_env ''blob:A''"
    by (simp add: sample_env_def loaded_single_def initial_single_def getPage_def)
  note th = raster_export_rect [OF p, where r = sample_rect and e = sample_env and s = ?s
      and page = letter_page and f = sample_pdf and t = ?t and u = "''blob:A''"]
  have nm: "page_download_name sample_pdf (currentPage ?s) (exportFormat ?s) = ''doc_page1.jpg''"
    "page_download_name sample_pdf (currentPage ?t) (exportFormat ?t) = ''doc_page1.png''"
    by (simp_all add: page_download_name_def baseName_of_def sample_pdf_def loaded_multi_def
          initial_multi_def loaded_single_def initial_single_def Let_def)
  from th q nm have m: "export_image_multi sample_env ?s sample_pdf =
        Normal [Download ''doc_page1.jpg'' (DataUrl ''data:image/jpeg'')]"
    by (simp add: sample_env_def mimeType_of_def)
  from th q' nm have s: "export_image_single sample_env ?t sample_pdf ''blob:A'' =
        Normal [Download ''doc_page1.png'' (DataUrl ''data:image/png'')]"
    by (simp add: sample_env_def mimeType_of_def)
  from th have "scaled_rect sample_rect (70 / 99) = toRasterSpace sample_rect (70 / 99) exportScale"
    by blast
  then have r: "scaled_rect sample_rect (70 / 99) =
        \<lparr>rect_x = 4125 / 14, rect_y = 4125 / 14, rect_width = 12375 / 14, rect_height = 12375 / 14\<rparr>"
    by (simp add: toRasterSpace_def sample_rect_def exportScale_def targetDPI_def Let_def)
  have l: "overlayImages ?s = [overlay_A, overlay_B, overlay_C]
     \<and> image_onload sample_env (previewUrl overlay_A) \<and> image_onload sample_env (previewUrl overlay_B)
     \<and> image_onload sample_env (previewUrl overlay_C)"
    by (simp add: sample_env_def loaded_multi_def initial_multi_def)
  from p q l r m s show ?thesis by blast
qed

section \<open>C5: a failed export\<close>

text \<open>
  Claim C5 holds of every path of the export that ends, and fails on one that does not.
  In the raster branch the promise of lines 309 to 311 is resolved by \<open>onload\<close> only
  and has no \<open>onerror\<close>: with placements A, B, C and a preview of B that never loads,
  the export of the multi-overlay variant waits for ever, the \<open>finally\<close> of line 339
  is never reached and \<open>isExporting\<close> stays true. A failure that is thrown is handled
  as the claim says: when embedding an image fails in the document branch, the error is
  logged and reported, nothing is downloaded, and the state is the one before with
  \<open>isExporting\<close> false.
\<close>
theorem export_stalls_with_flag_set:
  "exportFormat (loaded_multi\<lparr>exportFormat := Png\<rparr>) = Png
   \<and> \<not> isExporting (loaded_multi\<lparr>exportFormat := Png\<rparr>)
   \<and> overlayImages (loaded_multi\<lparr>exportFormat := Png\<rparr>) = [overlay_A, overlay_B, overlay_C]
   \<and> \<not> image_onload stalled_env (previewUrl overlay_B)
   \<and> handleExport_multi stalled_env (loaded_multi\<lparr>exportFormat := Png\<rparr>) =
       Pending (loaded_multi\<lparr>exportFormat := Png, isExporting := True\<rparr>)
   \<and> isExporting (loaded_multi\<lparr>exportFormat := Png, isExporting := True\<rparr>)
   \<and> handleExport_multi failing_env loaded_multi =
       Settled loaded_multi
         [ConsoleError ''Export error:'' (NonError ''corrupt image''), Alert ''Failed to export. '']"
  by (simp add: export_defs sample_defs)

section \<open>C6: the order of the raster composite\<close>

text \<open>
  Claim C6. An upload appends its placements to the end of the store, in the order of
  the files; moving or resizing a placement keeps the order of the store and removing one
  keeps the order of the others. The raster branch of the export draws, after the page,
  one image per placement in the order of the store, whatever the rectangles are: for
  placements added as A, B, C the composite draws A, then B, then C, so that a later
  placement is painted over an earlier one.
\<close>
theorem raster_z_order:
  "overlayImages (fst (handleImageUpload_multi ids urls files s)) =
     overlayImages s @ collect_images ids urls files []
   \<and> map img_file (collect_images ids urls files []) =
       filter (\<lambda>f. startsWith (file_type f) ''image/'') files
   \<and> map img_id (overlayImages (updateImagePos i newPos s)) = map img_id (overlayImages s)
   \<and> map previewUrl (overlayImages (updateImagePos i newPos s)) = map previewUrl (overlayImages s)
   \<and> overlayImages (removeImage i s) = filter (\<lambda>img. img_id img \<noteq> i) (overlayImages s)
   \<and> ((\<forall>ov\<in>set imgs. image_onload e (previewUrl ov)) \<longrightarrow>
        draw_overlay_images e sc imgs c =
          Normal (c\<lparr>canvas_ops := canvas_ops c @
                     map (\<lambda>ov. DrawImage (previewUrl ov) (scaled_rect (pos ov) sc)) imgs\<rparr>))
   \<and> (getContext e \<and> getPage (pdfDocProxy s) (currentPage s) = Inr page
        \<and> page_render e (currentPage s) exportScale = None
        \<and> (\<forall>ov\<in>set (overlayImages s). image_onload e (previewUrl ov))
      \<longrightarrow> export_image_multi e s f =
             Normal [Download (page_download_name f (currentPage s) (exportFormat s))
               (DataUrl (toDataURL e
                  \<lparr>canvas_width = dim_width page * exportScale,
                   canvas_height = dim_height page * exportScale,
                   canvas_ops = RenderPage (currentPage s) exportScale #
                     map (\<lambda>ov. DrawImage (previewUrl ov) (scaled_rect (pos ov) (renderScale s)))
                       (overlayImages s)\<rparr>
                  (mimeType_of (exportFormat s)) 1))])"
proof -
  have upd: "map img_id (overlayImages (updateImagePos i newPos s)) = map img_id (overlayImages s)"
    "map previewUrl (overlayImages (updateImagePos i newPos s)) = map previewUrl (overlayImages s)"
    by (simp_all add: updateImagePos_def)
  have rem: "overlayImages (removeImage i s) = filter (\<lambda>img. img_id img \<noteq> i) (overlayImages s)"
    by (simp add: removeImage_def)
  have loop: "draw_overlay_images e sc imgs c =
          Normal (c\<lparr>canvas_ops := canvas_ops c @
                     map (\<lambda>ov. DrawImage (previewUrl ov) (scaled_rect (pos ov) sc)) imgs\<rparr>)"
    if "\<forall>ov\<in>set imgs. image_onload e (previewUrl ov)"
    using that by (rule draw_overlay_images_ops)
  have draw: "export_image_multi e s f =
             Normal [Download (page_download_name f (currentPage s) (exportFormat s))
               (DataUrl (toDataURL e
                  \<lparr>canvas_width = dim_width page * exportScale,
                   canvas_height = dim_height page * exportScale,
                   canvas_ops = RenderPage (currentPage s) exportScale #
                     map (\<lambda>ov. DrawImage (previewUrl ov) (scaled_rect (pos ov) (renderScale s)))
                       (overlayImages s)\<rparr>
                  (mimeType_of (exportFormat s)) 1))]"
    if "getContext e \<and> getPage (pdfDocProxy s) (currentPage s) = Inr page
        \<and> page_render e (currentPage s) exportScale = None
        \<and> (\<forall>ov\<in>set (overlayImages s). image_onload e (previewUrl ov))"
    using that
    by (simp add: export_image_multi_def render_to_def getViewport_def Let_def draw_overlay_images_ops)
  show ?thesis
    apply (intro conjI impI)
          apply (rule handleImageUpload_multi_store)
         apply (rule collect_images_files)
        apply (rule upd(1))
       apply (rule upd(2))
      apply (rule rem)
     apply (erule loop)
    apply (erule draw)
    done
qed

theorem raster_z_order_witness:
  "overlayImages (fst (handleImageUpload_multi sample_ids sample_urls [sample_png, sample_txt, sample_jpeg] initial_multi)) =
     [\<lparr>img_id = ''id0'', img_file = sample_png, previewUrl = ''blob:0'',
       pos = \<lparr>rect_x = 50, rect_y = 50, rect_width = 150, rect_height = 150\<rparr>\<rparr>,
      \<lparr>img_id = ''id1'', img_file = sample_jpeg, previewUrl = ''blob:1'',
       pos = \<lparr>rect_x = 70, rect_y = 70, rect_width = 150, rect_height = 150\<rparr>\<rparr>]
   \<and> getContext sample_env
   \<and> getPage (pdfDocProxy (loaded_multi\<lparr>exportFormat := Png\<rparr>)) (currentPage (loaded_multi\<lparr>exportFormat := Png\<rparr>)) = Inr letter_page
   \<and> page_render sample_env (currentPage (loaded_multi\<lparr>exportFormat := Png\<rparr>)) exportScale = None
   \<and> overlayImages (loaded_multi\<lparr>exportFormat := Png\<rparr>) = [overlay_A, overlay_B, overlay_C]
   \<and> image_onload sample_env (previewUrl overlay_A) \<and> image_onload sample_env (previewUrl overlay_B)
   \<and> image_onload sample_env (previewUrl overlay_C)
   \<and> export_image_multi sample_env (loaded_multi\<lparr>exportFormat := Png\<rparr>) sample_pdf =
       Normal [Download ''doc_page1.png''
         (DataUrl (toDataURL sample_env
            \<lparr>canvas_width = 2550, canvas_height = 3300,
             canvas_ops = [RenderPage 1 exportScale,
               DrawImage ''blob:A'' (scaled_rect (pos overlay_A) (70 / 99)),
               DrawImage ''blob:B'' (scaled_rect (pos overlay_B) (70 / 99)),
               DrawImage ''blob:C'' (scaled_rect (pos overlay_C) (70 / 99))]\<rparr>
            ''image/png'' 1))]"
proof -
  let ?s = "loaded_multi\<lparr>exportFormat := Png\<rparr>"
  note th = raster_z_order [where ids = sample_ids and urls = sample_urls
      and files = "[sample_png, sample_txt, sample_jpeg]" and s = initial_multi]
  from th have "overlayImages (fst (handleImageUpload_multi sample_ids sample_urls [sample_png, sample_txt, sample_jpeg] initial_multi)) =
     overlayImages initial_multi @ collect_images sample_ids sample_urls [sample_png, sample_txt, sample_jpeg] []"
    by blast
  then have up: "overlayImages (fst (handleImageUpload_multi sample_ids sample_urls [sample_png, sample_txt, sample_jpeg] initial_multi)) =
     [\<lparr>img_id = ''id0'', img_file = sample_png, previewUrl = ''blob:0'',
       pos = \<lparr>rect_x = 50, rect_y = 50, rect_width = 150, rect_height = 150\<rparr>\<rparr>,
      \<lparr>img_id = ''id1'', img_file = sample_jpeg, previewUrl = ''blob:1'',
       pos = \<lparr>rect_x = 70, rect_y = 70, rect_width = 150, rect_height = 150\<rparr>\<rparr>]"
    by (simp add: initial_multi_def startsWith_def sample_ids_def sample_urls_def
          sample_png_def sample_txt_def sample_jpeg_def)
  have q: "getContext sample_env
     \<and> getPage (pdfDocProxy ?s) (currentPage ?s) = Inr letter_page
     \<and> page_render sample_env (currentPage ?s) exportScale = None
     \<and> (\<forall>ov\<in>set (overlayImages ?s). image_onload sample_env (previewUrl ov))"
    by (simp add: sample_env_def loaded_multi_def initial_multi_def getPage_def)
  note th2 = raster_z_order [where e = sample_env and s = ?s and page = letter_page and f = sample_pdf]
  from th2 q have "export_image_multi sample_env ?s sample_pdf =
             Normal [Download (page_download_name sample_pdf (currentPage ?s) (exportFormat ?s))
               (DataUrl (toDataURL sample_env
                  \<lparr>canvas_width = dim_width letter_page * exportScale,
                   canvas_height = dim_height letter_page * exportScale,
                   canvas_ops = RenderPage (currentPage ?s) exportScale #
                     map (\<lambda>ov. DrawImage (previewUrl ov) (scaled_rect (pos ov) (renderScale ?s)))
                       (overlayImages ?s)\<rparr>
                  (mimeType_of (exportFormat ?s)) 1))]"
    by blast
  moreover have "page_download_name sample_pdf (currentPage ?s) (exportFormat ?s) = ''doc_page1.png''"
    by (simp add: page_download_name_def baseName_of_def sample_pdf_def loaded_multi_def
          initial_multi_def Let_def)
  moreover have "dim_width letter_page * exportScale = 2550" "dim_height letter_page * exportScale = 3300"
    by (simp_all add: letter_page_def exportScale_def targetDPI_def)
  moreover have "currentPage ?s = 1" "renderScale ?s = 70 / 99" "mimeType_of (exportFormat ?s) = ''image/png''"
    "overlayImages ?s = [overlay_A, overlay_B, overlay_C]"
    by (simp_all add: loaded_multi_def initial_multi_def mimeType_of_def)
  moreover have "previewUrl overlay_A = ''blob:A''" "previewUrl overlay_B = ''blob:B''"
    "previewUrl overlay_C = ''blob:C''"
    by (simp_all add: overlay_A_def overlay_B_def overlay_C_def)
  ultimately have ex: "export_image_multi sample_env ?s sample_pdf =
       Normal [Download ''doc_page1.png''
         (DataUrl (toDataURL sample_env
            \<lparr>canvas_width = 2550, canvas_height = 3300,
             canvas_ops = [RenderPage 1 exportScale,
               DrawImage ''blob:A'' (scaled_rect (pos overlay_A) (70 / 99)),
               DrawImage ''blob:B'' (scaled_rect (pos overlay_B) (70 / 99)),
               DrawImage ''blob:C'' (scaled_rect (pos overlay_C) (70 / 99))]\<rparr>
            ''image/png'' 1))]"
    by simp
  have l: "overlayImages ?s = [overlay_A, overlay_B, overlay_C]
     \<and> image_onload sample_env (previewUrl overlay_A) \<and> image_onload sample_env (previewUrl overlay_B)
     \<and> image_onload sample_env (previewUrl overlay_C)"
    by (simp add: sample_env_def loaded_multi_def initial_multi_def)
  from up q l ex show ?thesis by blast
qed

section \<open>C7: the intake of images\<close>

text \<open>
  Claim C7 fails on the code: the intake tests \<open>file.type.startsWith('image/')\<close>
  (lines 51, 97 and 633), although the file picker (lines 419 and 926), the labels and
  the error of the document export (lines 241 and 768) name PNG and JPEG only. Uploading
  a file of type \<open>image/gif\<close> raises no notification and puts a placement for it into
  the store (the single-overlay variant takes it as its overlay); the document export
  of that store then fails with the error for an unsupported image format.
\<close>
theorem intake_admits_gif:
  "file_type sample_gif = ''image/gif''
   \<and> handleImageUpload_multi sample_ids sample_urls [sample_gif] (loaded_multi\<lparr>overlayImages := []\<rparr>) =
       (loaded_multi\<lparr>overlayImages := [overlay_gif]\<rparr>, [])
   \<and> img_file overlay_gif = sample_gif
   \<and> handleDrop sample_ids sample_urls [sample_gif] (loaded_multi\<lparr>overlayImages := []\<rparr>) =
       (loaded_multi\<lparr>overlayImages := [overlay_gif]\<rparr>, [])
   \<and> handleImageUpload_single ''blob:0'' (Some sample_gif) initial_single =
       (initial_single\<lparr>imageFile := Some sample_gif, imagePreviewUrl := Some ''blob:0''\<rparr>, [])
   \<and> handleExport_multi sample_env (loaded_multi\<lparr>overlayImages := [overlay_gif]\<rparr>) =
       Settled (loaded_multi\<lparr>overlayImages := [overlay_gif]\<rparr>)
         [ConsoleError ''Export error:'' (Error ''Unsupported image format. Please use PNG or JPEG.''),
          Alert ''Failed to export. Unsupported image format. Please use PNG or JPEG.'']"
  by (simp add: handleImageUpload_multi_def handleImageUpload_single_def handleDrop_def
        handlePdfUpload_multi_def startsWith_def sample_ids_def sample_urls_def
        export_defs sample_defs)

section \<open>C8: the aspect-ratio lock\<close>

text \<open>
  Claim C8 as stated fails, the variants being exchanged: the multi-overlay variant
  passes \<open>lockAspectRatio={true}\<close> (line 554), the single-overlay variant passes no
  such property (lines 1048 to 1062), which leaves the lock at the default of react-rnd,
  \<open>false\<close>.
\<close>
theorem aspect_lock_counterexample:
  "lock_enabled False (Rnd_multi overlay_A) \<and> \<not> lock_enabled False (Rnd_single sample_rect)"
  by (simp add: lock_enabled_def Rnd_multi_def Rnd_single_def)

text \<open>
  Claim C8, amended. The multi-overlay variant presents every overlay with the
  aspect-ratio lock enabled; the single-overlay variant does not set the lock, so that
  its overlay has the lock of the library's default (disabled in react-rnd).
\<close>
theorem aspect_lock_by_variant:
  "lockAspectRatio (Rnd_multi img) = Some True \<and> lock_enabled library_default (Rnd_multi img) = True
   \<and> lockAspectRatio (Rnd_single imagePos') = None
   \<and> lock_enabled library_default (Rnd_single imagePos') = library_default"
  by (simp add: lock_enabled_def Rnd_multi_def Rnd_single_def)

section \<open>C9: clearing the document\<close>




section \<open>C10: the guard of the export\<close>

text \<open>
  Claim C10. When no document is chosen (in the single-overlay variant also when no
  overlay image is chosen), \<open>handleExport\<close> returns at once: nothing is thrown, no
  effect is produced (no alert, no download), and the state is unchanged, so that a
  flag \<open>isExporting\<close> that was false stays false.
\<close>
theorem export_guard_returns:
  "(pdfFile s = None \<or> \<not> canvasRef s \<longrightarrow> handleExport_multi e s = Settled s [])
   \<and> (pdfFile t = None \<or> imageFile t = None \<or> imagePreviewUrl t = None \<or> \<not> canvasRef t
        \<longrightarrow> handleExport_single e t = Settled t [])
   \<and> (pdfFile s = None \<and> \<not> isExporting s
        \<longrightarrow> (\<exists>s'. handleExport_multi e s = Settled s' [] \<and> s' = s \<and> \<not> isExporting s'))
   \<and> ((pdfFile t = None \<or> imageFile t = None) \<and> \<not> isExporting t
        \<longrightarrow> (\<exists>t'. handleExport_single e t = Settled t' [] \<and> t' = t \<and> \<not> isExporting t'))"
  by (auto simp: handleExport_multi_def handleExport_single_def split: option.splits)

theorem export_guard_returns_witness:
  "pdfFile initial_multi = None \<and> \<not> isExporting initial_multi
   \<and> handleExport_multi sample_env initial_multi = Settled initial_multi []
   \<and> imageFile (initial_single\<lparr>pdfFile := Some sample_pdf\<rparr>) = None
   \<and> \<not> isExporting (initial_single\<lparr>pdfFile := Some sample_pdf\<rparr>)
   \<and> handleExport_single sample_env (initial_single\<lparr>pdfFile := Some sample_pdf\<rparr>) =
       Settled (initial_single\<lparr>pdfFile := Some sample_pdf\<rparr>) []"
proof -
  have p: "pdfFile initial_multi = None \<and> \<not> isExporting initial_multi"
    by (simp add: initial_multi_def)
  have q: "imageFile (initial_single\<lparr>pdfFile := Some sample_pdf\<rparr>) = None
     \<and> \<not> isExporting (initial_single\<lparr>pdfFile := Some sample_pdf\<rparr>)"
    by (simp add: initial_single_def)
  from export_guard_returns [of initial_multi sample_env "initial_single\<lparr>pdfFile := Some sample_pdf\<rparr>"] p q
  show ?thesis by blast
qed

end
